theory Spec2Isabelle
  imports Main
begin

section \<open>Exceptions, JSON documents and HTTP messages\<close>

text \<open>
  The exception classes of \<^verbatim>\<open>pyiceberg/catalog/rest.py\<close>: the ones it imports from
  \<^verbatim>\<open>pyiceberg.exceptions\<close>, the Python built-ins it raises (\<^verbatim>\<open>NotImplementedError\<close>,
  \<^verbatim>\<open>ValueError\<close>) or can raise implicitly (\<^verbatim>\<open>TypeError\<close> of \<^verbatim>\<open>**\<close> on a value that is not a
  mapping, \<^verbatim>\<open>KeyError\<close> of a missing dictionary key, \<^verbatim>\<open>ValueError\<close> of tuple unpacking), and
  the ones of its libraries (\<^verbatim>\<open>JSONDecodeError\<close>, pydantic's \<^verbatim>\<open>ValidationError\<close>, requests'
  \<^verbatim>\<open>ConnectionError\<close>). None of the classes the file names is a subclass of another one it
  tests for, so \<^verbatim>\<open>isinstance\<close> and \<^verbatim>\<open>==\<close> on classes are equality here. An exception is its
  class and its message.
\<close>

datatype exc_type =
    AuthorizationExpiredError
  | BadRequestError
  | CommitFailedException
  | CommitStateUnknownException
  | ForbiddenError
  | NamespaceAlreadyExistsError
  | NoSuchNamespaceError
  | NoSuchTableError
  | OAuthError
  | RESTError
  | ServerError
  | ServiceUnavailableError
  | TableAlreadyExistsError
  | UnauthorizedError
  | NotImplementedError
  | ValueError
  | TypeError
  | KeyError
  | JSONDecodeError
  | ValidationError
  | ConnectionError

type_synonym exn = "exc_type \<times> string"

datatype json =
    JNull
  | JBool bool
  | JNum int
  | JStr string
  | JArr "json list"
  | JObj "(string \<times> json) list"

text \<open>
  A response of the transport: its status, its raw text, and what \<^verbatim>\<open>response.json()\<close> gives
  (\<open>None\<close> when it raises \<^verbatim>\<open>JSONDecodeError\<close>). A request as the trace keeps it: method, URL,
  the \<^verbatim>\<open>Authorization\<close> header it carries, query parameters and form data.
\<close>

record response =
  status_code :: int
  resp_text :: string
  resp_json :: "json option"

record request =
  http_method :: string
  target :: string
  authorization :: "string option"
  params :: "(string \<times> string) list"
  data :: "(string \<times> string option) list"

record TableMetadata =
  document :: json
  metadata_properties :: "string \<rightharpoonup> string"

record TableResponse_model =
  metadata_location :: string
  metadata :: TableMetadata
  config :: "string \<rightharpoonup> string"

datatype TableIdentifier = TableIdentifier (namespace_root: "string list") (table_name: string)

datatype identifier_arg = Ident "string list" | TableIdent TableIdentifier

record Table =
  table_identifier :: "string list"
  table_metadata_location :: string
  table_metadata :: TableMetadata
  io :: "(string \<rightharpoonup> string) \<times> string"
  catalog :: string

text \<open>
  The collaborators the file uses and does not define: the pydantic models (from the keyword
  arguments of a JSON object to the fields the file reads, or the messages of the validation
  errors), \<^verbatim>\<open>Catalog.identifier_to_tuple_without_catalog\<close> (given the catalog's name),
  \<^verbatim>\<open>pyiceberg.__version__\<close> and the headers of a fresh \<^verbatim>\<open>requests.Session\<close>.
  Identifiers are tuples here; on a tuple \<^verbatim>\<open>Catalog.identifier_to_tuple\<close> is the identity.
\<close>

record collaborators =
  ErrorResponse :: "(string \<times> json) list \<Rightarrow> string list + (string \<times> string \<times> int)"
  OAuthErrorResponse ::
    "(string \<times> json) list \<Rightarrow> string list + (string \<times> string option \<times> string option)"
  TokenResponse :: "(string \<times> json) list \<Rightarrow> string list + string"
  ConfigResponse ::
    "(string \<times> json) list \<Rightarrow> string list + ((string \<rightharpoonup> string) \<times> (string \<rightharpoonup> string))"
  TableResponse :: "(string \<times> json) list \<Rightarrow> string list + TableResponse_model"
  ListTablesResponse :: "(string \<times> json) list \<Rightarrow> string list + (string \<times> string list) list"
  CommitTableResponse :: "(string \<times> json) list \<Rightarrow> string list + (TableMetadata \<times> string)"
  identifier_to_tuple_without_catalog :: "string \<Rightarrow> string list \<Rightarrow> string list"
  version :: string
  default_headers :: "string \<rightharpoonup> string"

section \<open>Strings\<close>

text \<open>\<^verbatim>\<open>sep.join(xs)\<close>, \<^verbatim>\<open>s.split(c)\<close> for a one-character separator, \<^verbatim>\<open>s.endswith(t)\<close>, \<^verbatim>\<open>str(n)\<close>.\<close>

fun join :: "string \<Rightarrow> string list \<Rightarrow> string" where
  "join sep [] = []"
| "join sep [x] = x"
| "join sep (x # y # ys) = x @ sep @ join sep (y # ys)"

fun split :: "char \<Rightarrow> string \<Rightarrow> string list" where
  "split c [] = [[]]"
| "split c (x # xs) =
     (if x = c then [] # split c xs
      else (case split c xs of [] \<Rightarrow> [[x]] | w # ws \<Rightarrow> (x # w) # ws))"

definition endswith :: "string \<Rightarrow> string \<Rightarrow> bool" where
  "endswith s t = (length t \<le> length s \<and> drop (length s - length t) s = t)"

definition digit :: "nat \<Rightarrow> char" where
  "digit n = ''0123456789'' ! n"

fun str_nat :: "nat \<Rightarrow> string" where
  "str_nat n = (if n < 10 then [digit n] else str_nat (n div 10) @ [digit (n mod 10)])"

declare str_nat.simps [simp del]

definition str_int :: "int \<Rightarrow> string" where
  "str_int i = (if i < 0 then CHR ''-'' # str_nat (nat (- i)) else str_nat (nat i))"

section \<open>Constants\<close>

definition AUTHORIZATION_HEADER :: string where "AUTHORIZATION_HEADER = ''Authorization''"
definition BEARER_PREFIX :: string where "BEARER_PREFIX = ''Bearer''"
definition CATALOG_SCOPE :: string where "CATALOG_SCOPE = ''catalog''"
definition CLIENT_ID :: string where "CLIENT_ID = ''client_id''"
definition PREFIX :: string where "PREFIX = ''prefix''"
definition CLIENT_SECRET :: string where "CLIENT_SECRET = ''client_secret''"
definition CLIENT_CREDENTIALS :: string where "CLIENT_CREDENTIALS = ''client_credentials''"
definition CREDENTIAL :: string where "CREDENTIAL = ''credential''"
definition GRANT_TYPE :: string where "GRANT_TYPE = ''grant_type''"
definition SCOPE :: string where "SCOPE = ''scope''"
definition SEMICOLON :: char where "SEMICOLON = CHR '':''"
definition AUTH_URL :: string where "AUTH_URL = ''rest.authorization-url''"
definition HEADER_PREFIX :: string where "HEADER_PREFIX = ''header.''"
definition TOKEN :: string where "TOKEN = ''token''"
definition URI :: string where "URI = ''uri''"
definition WAREHOUSE_LOCATION :: string where "WAREHOUSE_LOCATION = ''warehouse''"
definition ICEBERG_REST_SPEC_VERSION :: string where "ICEBERG_REST_SPEC_VERSION = ''0.14.1''"

definition NAMESPACE_SEPARATOR :: char where
  "NAMESPACE_SEPARATOR = CHR 0x1F"

section \<open>Identifiers (lines 259-264 and 333-347)\<close>

definition check_valid_namespace_identifier :: "string list \<Rightarrow> exn + string list" where
  "check_valid_namespace_identifier identifier_tuple =
     (if length identifier_tuple < 1
      then Inl (NoSuchNamespaceError, ''Empty namespace identifier: ()'')
      else Inr identifier_tuple)"

definition identifier_to_validated_tuple :: "string list \<Rightarrow> exn + string list" where
  "identifier_to_validated_tuple identifier_tuple =
     (if length identifier_tuple \<le> 1
      then Inl (NoSuchTableError,
             ''Missing namespace or invalid identifier: '' @ join ''.'' identifier_tuple)
      else Inr identifier_tuple)"

text \<open>The dictionary \<^verbatim>\<open>{"namespace": ..., "table": ...}\<close> is the pair of its two values.\<close>

definition split_identifier_for_path :: "identifier_arg \<Rightarrow> exn + (string \<times> string)" where
  "split_identifier_for_path ident =
     (case ident of
        TableIdent t \<Rightarrow>
          Inr (join [NAMESPACE_SEPARATOR] (drop 1 (namespace_root t)), table_name t)
      | Ident identifier \<Rightarrow>
          (case identifier_to_validated_tuple identifier of
             Inl e \<Rightarrow> Inl e
           | Inr identifier_tuple \<Rightarrow>
               Inr (join [NAMESPACE_SEPARATOR] (butlast identifier_tuple),
                    last identifier_tuple)))"

definition split_identifier_for_json :: "string list \<Rightarrow> exn + (string list \<times> string)" where
  "split_identifier_for_json identifier =
     (case identifier_to_validated_tuple identifier of
        Inl e \<Rightarrow> Inl e
      | Inr identifier_tuple \<Rightarrow> Inr (butlast identifier_tuple, last identifier_tuple))"

section \<open>Mapping an error response to an exception (lines 349-399)\<close>

text \<open>
  Lines 355-375: the class chosen from the status code, the caller's table first. The
  spec calls \<^verbatim>\<open>RESTError\<close> the REST protocol error.
\<close>

definition select_exception :: "int \<Rightarrow> (int \<rightharpoonup> exc_type) \<Rightarrow> exc_type" where
  "select_exception code error_handler =
     (case error_handler code of
        Some exception \<Rightarrow> exception
      | None \<Rightarrow>
          if code = 400 then BadRequestError
          else if code = 401 then UnauthorizedError
          else if code = 403 then ForbiddenError
          else if code = 422 then RESTError
          else if code = 419 then AuthorizationExpiredError
          else if code = 501 then NotImplementedError
          else if code = 503 then ServiceUnavailableError
          else if 500 \<le> code \<and> code < 600 then ServerError
          else RESTError)"

definition could_not_decode :: "response \<Rightarrow> string" where
  "could_not_decode r =
     ''RESTError '' @ str_int (status_code r) @ '': Could not decode json payload: '' @ resp_text r"

definition unexpected_payload :: "response \<Rightarrow> string list \<Rightarrow> string" where
  "unexpected_payload r errs =
     ''RESTError '' @ str_int (status_code r) @ '': Received unexpected JSON Payload: ''
       @ resp_text r @ '', errors: '' @ join '', '' errs"

definition oauth_text :: "string \<Rightarrow> string option \<Rightarrow> string option \<Rightarrow> string" where
  "oauth_text error description uri =
     error
     @ (case description of None \<Rightarrow> [] | Some d \<Rightarrow> if d = [] then [] else '': '' @ d)
     @ (case uri of None \<Rightarrow> [] | Some u \<Rightarrow> if u = [] then [] else '' ('' @ u @ '')'')"

text \<open>
  Lines 377-397: the message. \<open>Inl\<close> is an exception that leaves the \<^verbatim>\<open>try\<close> block uncaught:
  \<^verbatim>\<open>ErrorResponse(**v)\<close> raises \<^verbatim>\<open>TypeError\<close> when the decoded body \<^verbatim>\<open>v\<close> is not a JSON object,
  and the block catches \<^verbatim>\<open>JSONDecodeError\<close> and \<^verbatim>\<open>ValidationError\<close> only.
\<close>

definition error_text :: "collaborators \<Rightarrow> exc_type \<Rightarrow> response \<Rightarrow> exn + string" where
  "error_text x exception r =
     (case resp_json r of
        None \<Rightarrow> Inr (could_not_decode r)
      | Some (JObj kw) \<Rightarrow>
          (if exception = OAuthError
           then (case OAuthErrorResponse x kw of
                   Inl errs \<Rightarrow> Inr (unexpected_payload r errs)
                 | Inr (error, description, uri) \<Rightarrow> Inr (oauth_text error description uri))
           else (case ErrorResponse x kw of
                   Inl errs \<Rightarrow> Inr (unexpected_payload r errs)
                 | Inr (message, type, code) \<Rightarrow> Inr (type @ '': '' @ message)))
      | Some _ \<Rightarrow> Inl (TypeError, ''argument after ** must be a mapping''))"

text \<open>The function always raises; its value is the exception it raises.\<close>

definition handle_non_200_response ::
  "collaborators \<Rightarrow> response option \<Rightarrow> (int \<rightharpoonup> exc_type) \<Rightarrow> exn" where
  "handle_non_200_response x exc_response error_handler =
     (case exc_response of
        None \<Rightarrow> (ValueError, ''Did not receive a response'')
      | Some r \<Rightarrow>
          (let exception = select_exception (status_code r) error_handler
           in case error_text x exception r of
                Inl e \<Rightarrow> e
              | Inr response \<Rightarrow> (exception, response)))"

section \<open>The client's state and the transport\<close>

text \<open>
  A session is its default headers (TLS material and the SigV4 adapter, lines 238-246, 254-255
  and 401-445, are left out: properties are strings here and nothing below depends on
  them). The state
  is the catalog object (\<^verbatim>\<open>name\<close>, \<^verbatim>\<open>uri\<close>, \<^verbatim>\<open>properties\<close>, \<^verbatim>\<open>_session\<close>) together with the
  network: the responses the server will give, in order, and the requests sent so far.
  A request with no response left fails as the transport does, with \<^verbatim>\<open>ConnectionError\<close>.
  The property names \<^verbatim>\<open>TOKEN\<close>, \<^verbatim>\<open>URI\<close> and \<^verbatim>\<open>WAREHOUSE_LOCATION\<close> are imported from
  \<^verbatim>\<open>pyiceberg.catalog\<close>.
\<close>

record session =
  headers :: "string \<rightharpoonup> string"

record world =
  name :: string
  uri :: string
  properties :: "string \<rightharpoonup> string"
  catalog_session :: session
  inbox :: "response list"
  outbox :: "request list"

definition send ::
  "string \<Rightarrow> string \<Rightarrow> (string \<times> string) list \<Rightarrow> (string \<times> string option) list \<Rightarrow> session
     \<Rightarrow> world \<Rightarrow> (exn + response) \<times> world" where
  "send m u ps d sess w =
     (let rq = \<lparr>http_method = m, target = u, authorization = headers sess AUTHORIZATION_HEADER,
                params = ps, data = d\<rparr>
      in case inbox w of
           [] \<Rightarrow> (Inl (ConnectionError, u), w\<lparr>outbox := outbox w @ [rq]\<rparr>)
         | r # rs \<Rightarrow> (Inr r, w\<lparr>inbox := rs, outbox := outbox w @ [rq]\<rparr>))"

text \<open>\<^verbatim>\<open>response.raise_for_status()\<close> raises \<^verbatim>\<open>HTTPError\<close> for the statuses 400 to 599.\<close>

definition raise_for_status :: "response \<Rightarrow> bool" where
  "raise_for_status r = (400 \<le> status_code r \<and> status_code r < 600)"

text \<open>
  \<^verbatim>\<open>Model(**response.json())\<close>: the keyword arguments of the decoded body, then the
  model's validation. Outside \<^verbatim>\<open>_handle_non_200_response\<close> none of its exceptions is caught.
\<close>

definition kwargs :: "response \<Rightarrow> exn + (string \<times> json) list" where
  "kwargs r =
     (case resp_json r of
        None \<Rightarrow> Inl (JSONDecodeError, resp_text r)
      | Some (JObj kw) \<Rightarrow> Inr kw
      | Some _ \<Rightarrow> Inl (TypeError, ''argument after ** must be a mapping''))"

definition validated :: "string list + 'a \<Rightarrow> exn + 'a" where
  "validated v = (case v of Inl errs \<Rightarrow> Inl (ValidationError, join '', '' errs) | Inr a \<Rightarrow> Inr a)"

definition decode :: "((string \<times> json) list \<Rightarrow> string list + 'a) \<Rightarrow> response \<Rightarrow> exn + 'a" where
  "decode model r = (case kwargs r of Inl e \<Rightarrow> Inl e | Inr kw \<Rightarrow> validated (model kw))"

section \<open>URLs (lines 80-95 and 266-290)\<close>

definition url :: "world \<Rightarrow> string \<Rightarrow> bool \<Rightarrow> string" where
  "url w endpoint prefixed =
     (let u0 = uri w;
          u1 = (if endswith u0 ''/'' then u0 @ ''v1/'' else u0 @ ''/v1/'');
          u2 = (if prefixed
                then (let p = u1 @ (case properties w PREFIX of Some v \<Rightarrow> v | None \<Rightarrow> [])
                      in if endswith p ''/'' then p else p @ ''/'')
                else u1)
      in u2 @ endpoint)"

definition get_config :: string where "get_config = ''config''"
definition get_token :: string where "get_token = ''oauth/tokens''"

definition list_tables_endpoint :: "string \<Rightarrow> string" where
  "list_tables_endpoint namespace = ''namespaces/'' @ namespace @ ''/tables''"

definition create_table_endpoint :: "string \<Rightarrow> string" where
  "create_table_endpoint namespace = ''namespaces/'' @ namespace @ ''/tables''"


definition load_table_endpoint :: "string \<Rightarrow> string \<Rightarrow> string" where
  "load_table_endpoint namespace table = ''namespaces/'' @ namespace @ ''/tables/'' @ table"


definition drop_table_endpoint :: "string \<Rightarrow> string \<Rightarrow> bool \<Rightarrow> string" where
  "drop_table_endpoint namespace table purge =
     ''namespaces/'' @ namespace @ ''/tables/'' @ table @ ''?purgeRequested=''
       @ (if purge then ''True'' else ''False'')"

definition auth_url :: "world \<Rightarrow> string" where
  "auth_url w =
     (case properties w AUTH_URL of
        Some u \<Rightarrow> if u \<noteq> [] then u else url w get_token False
      | None \<Rightarrow> url w get_token False)"

section \<open>The token service (lines 292-310)\<close>

text \<open>
  Lines 293-296. \<^verbatim>\<open>credential.split(":")\<close> splits at every colon, and the assignment to two
  names raises \<^verbatim>\<open>ValueError\<close> unless there are exactly two parts.
\<close>

definition credential_parts :: "string \<Rightarrow> exn + (string option \<times> string)" where
  "credential_parts credential =
     (if SEMICOLON \<in> set credential
      then (case split SEMICOLON credential of
              [client_id, client_secret] \<Rightarrow> Inr (Some client_id, client_secret)
            | _ \<Rightarrow> Inl (ValueError, ''too many values to unpack (expected 2)''))
      else Inr (None, credential))"

definition token_error_handler :: "int \<rightharpoonup> exc_type" where
  "token_error_handler = [400 \<mapsto> OAuthError, 401 \<mapsto> OAuthError]"

definition fetch_access_token ::
  "collaborators \<Rightarrow> session \<Rightarrow> string \<Rightarrow> world \<Rightarrow> (exn + string) \<times> world" where
  "fetch_access_token x sess credential w =
     (case credential_parts credential of
        Inl e \<Rightarrow> (Inl e, w)
      | Inr (client_id, client_secret) \<Rightarrow>
          (let scope = (case properties w SCOPE of
                          Some s \<Rightarrow> if s \<noteq> [] then s else CATALOG_SCOPE
                        | None \<Rightarrow> CATALOG_SCOPE);
               form = [(GRANT_TYPE, Some CLIENT_CREDENTIALS), (CLIENT_ID, client_id),
                       (CLIENT_SECRET, Some client_secret), (SCOPE, Some scope)]
           in case send ''POST'' (auth_url w) [] form sess w of
                (Inl e, w1) \<Rightarrow> (Inl e, w1)
              | (Inr response, w1) \<Rightarrow>
                  if raise_for_status response
                  then (Inl (handle_non_200_response x (Some response) token_error_handler), w1)
                  else (case decode (TokenResponse x) response of
                          Inl e \<Rightarrow> (Inl e, w1)
                        | Inr access_token \<Rightarrow> (Inr access_token, w1))))"

section \<open>The session manager (lines 234-257 and 458-478)\<close>

text \<open>
  Lines 460-467 on a given session: the token property is written (lines 460-463), then
  the header is set from it when it is there and not empty (lines 466-467). The session is
  returned as changed.
\<close>

definition set_authorization :: "session \<Rightarrow> string option \<Rightarrow> session" where
  "set_authorization sess token_property =
     (case token_property of
        Some token \<Rightarrow>
          if token \<noteq> []
          then sess\<lparr>headers := (headers sess)
                      (AUTHORIZATION_HEADER \<mapsto> BEARER_PREFIX @ '' '' @ token)\<rparr>
          else sess
      | None \<Rightarrow> sess)"

definition refresh_token_on ::
  "collaborators \<Rightarrow> session \<Rightarrow> string option \<Rightarrow> world \<Rightarrow> (exn + session) \<times> world" where
  "refresh_token_on x sess initial_token w =
     (case (case initial_token of
              Some t \<Rightarrow> (Inr (), w\<lparr>properties := (properties w)(TOKEN \<mapsto> t)\<rparr>)
            | None \<Rightarrow>
                (case properties w CREDENTIAL of
                   Some credential \<Rightarrow>
                     (case fetch_access_token x sess credential w of
                        (Inl e, w1) \<Rightarrow> (Inl e, w1)
                      | (Inr tok, w1) \<Rightarrow>
                          (Inr (), w1\<lparr>properties := (properties w1)(TOKEN \<mapsto> tok)\<rparr>))
                 | None \<Rightarrow> (Inr (), w))) of
        (Inl e, w1) \<Rightarrow> (Inl e, w1)
      | (Inr _, w1) \<Rightarrow> (Inr (set_authorization sess (properties w1 TOKEN)), w1))"

text \<open>
  Line 459: without a session argument the catalog's own session is the one changed.
\<close>

definition refresh_token ::
  "collaborators \<Rightarrow> session option \<Rightarrow> string option \<Rightarrow> world \<Rightarrow> (exn + session) \<times> world" where
  "refresh_token x sess initial_token w =
     (case sess of
        Some s \<Rightarrow> refresh_token_on x s initial_token w
      | None \<Rightarrow>
          (case refresh_token_on x (catalog_session w) initial_token w of
             (Inl e, w1) \<Rightarrow> (Inl e, w1)
           | (Inr s', w1) \<Rightarrow> (Inr s', w1\<lparr>catalog_session := s'\<rparr>)))"

definition extract_headers_from_properties :: "world \<Rightarrow> (string \<rightharpoonup> string)" where
  "extract_headers_from_properties w = (\<lambda>key. properties w (HEADER_PREFIX @ key))"

definition config_headers :: "collaborators \<Rightarrow> session \<Rightarrow> world \<Rightarrow> session" where
  "config_headers x sess w =
     sess\<lparr>headers :=
       ((headers sess)
          (''Content-type'' \<mapsto> ''application/json'',
           ''X-Client-Version'' \<mapsto> ICEBERG_REST_SPEC_VERSION,
           ''User-Agent'' \<mapsto> ''PyIceberg/'' @ version x,
           ''X-Iceberg-Access-Delegation'' \<mapsto> ''vended-credentials''))
       ++ extract_headers_from_properties w\<rparr>"

definition create_session :: "collaborators \<Rightarrow> world \<Rightarrow> (exn + session) \<times> world" where
  "create_session x w =
     (case refresh_token x (Some \<lparr>headers = default_headers x\<rparr>) (properties w TOKEN) w of
        (Inl e, w1) \<Rightarrow> (Inl e, w1)
      | (Inr sess, w1) \<Rightarrow> (Inr (config_headers x sess w1), w1))"

section \<open>Fetching the configuration and constructing the client (lines 220-232, 312-331)\<close>

text \<open>Lines 325-327: the defaults, updated with the properties, then with the overrides.\<close>

definition merged_config ::
  "(string \<rightharpoonup> string) \<Rightarrow> (string \<rightharpoonup> string) \<Rightarrow> (string \<rightharpoonup> string) \<Rightarrow> (string \<rightharpoonup> string)" where
  "merged_config defaults props overrides = defaults ++ props ++ overrides"

definition fetch_config :: "collaborators \<Rightarrow> world \<Rightarrow> (exn + unit) \<times> world" where
  "fetch_config x w =
     (let ps = (case properties w WAREHOUSE_LOCATION of
                  Some warehouse_location \<Rightarrow>
                    if warehouse_location \<noteq> [] then [(WAREHOUSE_LOCATION, warehouse_location)]
                    else []
                | None \<Rightarrow> [])
      in case create_session x w of
           (Inl e, w1) \<Rightarrow> (Inl e, w1)
         | (Inr sess, w1) \<Rightarrow>
             (case send ''GET'' (url w1 get_config False) ps [] sess w1 of
                (Inl e, w2) \<Rightarrow> (Inl e, w2)
              | (Inr response, w2) \<Rightarrow>
                  if raise_for_status response
                  then (Inl (handle_non_200_response x (Some response) Map.empty), w2)
                  else (case decode (ConfigResponse x) response of
                          Inl e \<Rightarrow> (Inl e, w2)
                        | Inr (defaults, overrides) \<Rightarrow>
                            (let config = merged_config defaults (properties w2) overrides;
                                 w3 = w2\<lparr>properties := config\<rparr>
                             in case config URI of
                                  None \<Rightarrow> (Inl (KeyError, URI), w3)
                                | Some u \<Rightarrow> (Inr (), w3\<lparr>uri := u\<rparr>)))))"

text \<open>
  \<^verbatim>\<open>RestCatalog(name, **properties)\<close> against a server that will answer \<open>rs\<close>.
\<close>

definition RestCatalog ::
  "collaborators \<Rightarrow> string \<Rightarrow> (string \<rightharpoonup> string) \<Rightarrow> response list \<Rightarrow> (exn + unit) \<times> world" where
  "RestCatalog x nm props rs =
     (let w0 = \<lparr>name = nm, uri = [], properties = props,
                catalog_session = \<lparr>headers = Map.empty\<rparr>, inbox = rs, outbox = []\<rparr>
      in case props URI of
           None \<Rightarrow> (Inl (KeyError, URI), w0)
         | Some u \<Rightarrow>
             (case fetch_config x (w0\<lparr>uri := u\<rparr>) of
                (Inl e, w1) \<Rightarrow> (Inl e, w1)
              | (Inr _, w1) \<Rightarrow>
                  (case create_session x w1 of
                     (Inl e, w2) \<Rightarrow> (Inl e, w2)
                   | (Inr sess, w2) \<Rightarrow> (Inr (), w2\<lparr>catalog_session := sess\<rparr>))))"

section \<open>The retry decorator (lines 124-134)\<close>

text \<open>
  \<^verbatim>\<open>@retry(**_RETRY_ARGS)\<close> is tenacity's loop with the arguments of lines 129-134. After an
  attempt that raised, \<^verbatim>\<open>retry\<close> is asked first (an exception it does not select is raised at
  once), then \<^verbatim>\<open>stop\<close> (with \<^verbatim>\<open>reraise\<close> the last exception is raised); otherwise
  \<^verbatim>\<open>before_sleep\<close> runs, and an exception of the hook leaves the loop; there is no wait.
  Attempts are numbered from 1.
\<close>

definition retry_if_exception_type :: "exc_type \<Rightarrow> exn \<Rightarrow> bool" where
  "retry_if_exception_type t e = (fst e = t)"

definition stop_after_attempt :: "nat \<Rightarrow> nat \<Rightarrow> bool" where
  "stop_after_attempt max_attempt_number attempt_number = (attempt_number \<ge> max_attempt_number)"

function retrying ::
  "nat \<Rightarrow> ('s \<Rightarrow> (exn + unit) \<times> 's) \<Rightarrow> ('s \<Rightarrow> (exn + 'a) \<times> 's) \<Rightarrow> 's \<Rightarrow> (exn + 'a) \<times> 's" where
  "retrying attempt_number before_sleep fn s =
     (case fn s of
        (Inr v, s1) \<Rightarrow> (Inr v, s1)
      | (Inl e, s1) \<Rightarrow>
          if \<not> retry_if_exception_type AuthorizationExpiredError e then (Inl e, s1)
          else if stop_after_attempt 2 attempt_number then (Inl e, s1)
          else (case before_sleep s1 of
                  (Inl e', s2) \<Rightarrow> (Inl e', s2)
                | (Inr _, s2) \<Rightarrow> retrying (Suc attempt_number) before_sleep fn s2))"
  by pat_completeness auto
termination
  by (relation "measure (\<lambda>(n, _, _, _). 2 - n)") (auto simp: stop_after_attempt_def)

declare retrying.simps [simp del]

definition retry ::
  "('s \<Rightarrow> (exn + unit) \<times> 's) \<Rightarrow> ('s \<Rightarrow> (exn + 'a) \<times> 's) \<Rightarrow> 's \<Rightarrow> (exn + 'a) \<times> 's" where
  "retry before_sleep fn = retrying 1 before_sleep fn"

definition retry_hook :: "collaborators \<Rightarrow> world \<Rightarrow> (exn + unit) \<times> world" where
  "retry_hook x w =
     (case refresh_token x None None w of
        (Inl e, w1) \<Rightarrow> (Inl e, w1)
      | (Inr _, w1) \<Rightarrow> (Inr (), w1))"



section \<open>Catalog operations (lines 447-456 and 480-637)\<close>

definition response_to_table :: "world \<Rightarrow> string list \<Rightarrow> TableResponse_model \<Rightarrow> Table" where
  "response_to_table w identifier_tuple table_response =
     \<lparr>table_identifier = (if name w \<noteq> [] then name w # identifier_tuple else identifier_tuple),
      table_metadata_location = metadata_location table_response,
      table_metadata = metadata table_response,
      io = (metadata_properties (metadata table_response) ++ config table_response,
            metadata_location table_response),
      catalog = name w\<rparr>"

definition create_table_error_handler :: "int \<rightharpoonup> exc_type" where
  "create_table_error_handler = [409 \<mapsto> TableAlreadyExistsError]"


definition list_tables_error_handler :: "int \<rightharpoonup> exc_type" where
  "list_tables_error_handler = [404 \<mapsto> NoSuchNamespaceError]"

definition load_table_error_handler :: "int \<rightharpoonup> exc_type" where
  "load_table_error_handler = [404 \<mapsto> NoSuchTableError]"

definition drop_table_error_handler :: "int \<rightharpoonup> exc_type" where
  "drop_table_error_handler = [404 \<mapsto> NoSuchTableError]"



text \<open>
  The bodies of the decorated methods. The schema, partition spec and sort order of
  \<^verbatim>\<open>create_table\<close> and the JSON bodies of the requests are not part of the trace.
\<close>

definition create_table_body :: "collaborators \<Rightarrow> string list \<Rightarrow> world \<Rightarrow> (exn + Table) \<times> world" where
  "create_table_body x ident w =
     (case split_identifier_for_path (Ident ident) of
        Inl e \<Rightarrow> (Inl e, w)
      | Inr (namespace, table) \<Rightarrow>
          (case send ''POST'' (url w (create_table_endpoint namespace) True) [] []
                  (catalog_session w) w of
             (Inl e, w1) \<Rightarrow> (Inl e, w1)
           | (Inr response, w1) \<Rightarrow>
               if raise_for_status response
               then (Inl (handle_non_200_response x (Some response) create_table_error_handler),
                     w1)
               else (case decode (TableResponse x) response of
                       Inl e \<Rightarrow> (Inl e, w1)
                     | Inr table_response \<Rightarrow>
                         (Inr (response_to_table w1 ident table_response), w1))))"

definition create_table :: "collaborators \<Rightarrow> string list \<Rightarrow> world \<Rightarrow> (exn + Table) \<times> world" where
  "create_table x ident = retry (retry_hook x) (create_table_body x ident)"



definition list_tables_body ::
  "collaborators \<Rightarrow> string list \<Rightarrow> world \<Rightarrow> (exn + string list list) \<times> world" where
  "list_tables_body x namespace w =
     (case check_valid_namespace_identifier namespace of
        Inl e \<Rightarrow> (Inl e, w)
      | Inr namespace_tuple \<Rightarrow>
          (let namespace_concat = join [NAMESPACE_SEPARATOR] namespace_tuple
           in case send ''GET'' (url w (list_tables_endpoint namespace_concat) True) [] []
                     (catalog_session w) w of
                (Inl e, w1) \<Rightarrow> (Inl e, w1)
              | (Inr response, w1) \<Rightarrow>
                  if raise_for_status response
                  then (Inl (handle_non_200_response x (Some response)
                               list_tables_error_handler), w1)
                  else (case decode (ListTablesResponse x) response of
                          Inl e \<Rightarrow> (Inl e, w1)
                        | Inr identifiers \<Rightarrow>
                            (Inr (map (\<lambda>(table_nm, table_ns). table_ns @ [table_nm]) identifiers),
                             w1))))"

definition list_tables ::
  "collaborators \<Rightarrow> string list \<Rightarrow> world \<Rightarrow> (exn + string list list) \<times> world" where
  "list_tables x namespace = retry (retry_hook x) (list_tables_body x namespace)"

definition load_table_body :: "collaborators \<Rightarrow> string list \<Rightarrow> world \<Rightarrow> (exn + Table) \<times> world" where
  "load_table_body x ident w =
     (let identifier_tuple = identifier_to_tuple_without_catalog x (name w) ident
      in case split_identifier_for_path (Ident identifier_tuple) of
           Inl e \<Rightarrow> (Inl e, w)
         | Inr (namespace, table) \<Rightarrow>
             (case send ''GET'' (url w (load_table_endpoint namespace table) True) [] []
                     (catalog_session w) w of
                (Inl e, w1) \<Rightarrow> (Inl e, w1)
              | (Inr response, w1) \<Rightarrow>
                  if raise_for_status response
                  then (Inl (handle_non_200_response x (Some response)
                               load_table_error_handler), w1)
                  else (case decode (TableResponse x) response of
                          Inl e \<Rightarrow> (Inl e, w1)
                        | Inr table_response \<Rightarrow>
                            (Inr (response_to_table w1 identifier_tuple table_response), w1))))"

definition load_table :: "collaborators \<Rightarrow> string list \<Rightarrow> world \<Rightarrow> (exn + Table) \<times> world" where
  "load_table x ident = retry (retry_hook x) (load_table_body x ident)"

definition drop_table_body ::
  "collaborators \<Rightarrow> string list \<Rightarrow> bool \<Rightarrow> world \<Rightarrow> (exn + unit) \<times> world" where
  "drop_table_body x ident purge_requested w =
     (let identifier_tuple = identifier_to_tuple_without_catalog x (name w) ident
      in case split_identifier_for_path (Ident identifier_tuple) of
           Inl e \<Rightarrow> (Inl e, w)
         | Inr (namespace, table) \<Rightarrow>
             (case send ''DELETE''
                     (url w (drop_table_endpoint namespace table purge_requested) True) [] []
                     (catalog_session w) w of
                (Inl e, w1) \<Rightarrow> (Inl e, w1)
              | (Inr response, w1) \<Rightarrow>
                  if raise_for_status response
                  then (Inl (handle_non_200_response x (Some response)
                               drop_table_error_handler), w1)
                  else (Inr (), w1)))"

definition drop_table ::
  "collaborators \<Rightarrow> string list \<Rightarrow> bool \<Rightarrow> world \<Rightarrow> (exn + unit) \<times> world" where
  "drop_table x ident purge_requested =
     retry (retry_hook x) (drop_table_body x ident purge_requested)"

definition purge_table_body :: "collaborators \<Rightarrow> string list \<Rightarrow> world \<Rightarrow> (exn + unit) \<times> world" where
  "purge_table_body x ident w = drop_table x ident True w"

definition purge_table :: "collaborators \<Rightarrow> string list \<Rightarrow> world \<Rightarrow> (exn + unit) \<times> world" where
  "purge_table x ident = retry (retry_hook x) (purge_table_body x ident)"





section \<open>One instance of the collaborators\<close>

text \<open>
  An instance to run the model on concrete inputs: each model checks the fields that
  lines 137-213 declare (a required field must be there with the declared type; the keys of
  an object are distinct), an identifier is handed on as it is given (the identifiers used
  below do not carry the catalog's name), a fresh session has no headers.
\<close>

definition str_field :: "(string \<times> json) list \<Rightarrow> string \<Rightarrow> string option" where
  "str_field kw k = (case map_of kw k of Some (JStr v) \<Rightarrow> Some v | _ \<Rightarrow> None)"

fun str_items :: "(string \<times> json) list \<Rightarrow> (string \<times> string) list option" where
  "str_items [] = Some []"
| "str_items ((k, JStr v) # kvs) =
     (case str_items kvs of Some r \<Rightarrow> Some ((k, v) # r) | None \<Rightarrow> None)"
| "str_items (_ # kvs) = None"

definition props_field :: "(string \<times> json) list \<Rightarrow> string \<Rightarrow> (string \<rightharpoonup> string) option" where
  "props_field kw k =
     (case map_of kw k of
        Some (JObj m) \<Rightarrow> (case str_items m of Some kvs \<Rightarrow> Some (map_of kvs) | None \<Rightarrow> None)
      | _ \<Rightarrow> None)"

fun str_list :: "json list \<Rightarrow> string list option" where
  "str_list [] = Some []"
| "str_list (JStr v # js) = (case str_list js of Some r \<Rightarrow> Some (v # r) | None \<Rightarrow> None)"
| "str_list (_ # js) = None"

fun table_entries :: "json list \<Rightarrow> (string \<times> string list) list option" where
  "table_entries [] = Some []"
| "table_entries (JObj e # js) =
     (case (str_field e ''name'', map_of e ''namespace'', table_entries js) of
        (Some n, Some (JArr ns), Some r) \<Rightarrow>
          (case str_list ns of Some ns' \<Rightarrow> Some ((n, ns') # r) | None \<Rightarrow> None)
      | _ \<Rightarrow> None)"
| "table_entries (_ # js) = None"

definition oauth_error_codes :: "string list" where
  "oauth_error_codes =
     [''invalid_request'', ''invalid_client'', ''invalid_grant'', ''unauthorized_client'',
      ''unsupported_grant_type'', ''invalid_scope'']"

definition metadata_of :: "(string \<times> json) list \<Rightarrow> TableMetadata" where
  "metadata_of m =
     \<lparr>document = JObj m,
      metadata_properties = (case props_field m ''properties'' of Some p \<Rightarrow> p | None \<Rightarrow> Map.empty)\<rparr>"

definition sample :: collaborators where
  "sample =
     \<lparr>ErrorResponse = (\<lambda>kw.
          case map_of kw ''error'' of
            Some (JObj e) \<Rightarrow>
              (case (str_field e ''message'', str_field e ''type'', map_of e ''code'') of
                 (Some m, Some t, Some (JNum c)) \<Rightarrow> Inr (m, t, c)
               | _ \<Rightarrow> Inl [''Field required''])
          | _ \<Rightarrow> Inl [''Field required'']),
      OAuthErrorResponse = (\<lambda>kw.
          case str_field kw ''error'' of
            Some e \<Rightarrow>
              if e \<in> set oauth_error_codes
              then Inr (e, str_field kw ''error_description'', str_field kw ''error_uri'')
              else Inl [''Input should be a known error code'']
          | None \<Rightarrow> Inl [''Field required'']),
      TokenResponse = (\<lambda>kw.
          case (str_field kw ''access_token'', str_field kw ''token_type'') of
            (Some a, Some t) \<Rightarrow> Inr a
          | _ \<Rightarrow> Inl [''Field required'']),
      ConfigResponse = (\<lambda>kw.
          case (props_field kw ''defaults'', props_field kw ''overrides'') of
            (Some d, Some ov) \<Rightarrow> Inr (d, ov)
          | _ \<Rightarrow> Inl [''Field required'']),
      TableResponse = (\<lambda>kw.
          case (str_field kw ''metadata-location'', map_of kw ''metadata'') of
            (Some loc, Some (JObj m)) \<Rightarrow>
              Inr \<lparr>metadata_location = loc, metadata = metadata_of m,
                   config = (case props_field kw ''config'' of
                               Some c \<Rightarrow> c | None \<Rightarrow> Map.empty)\<rparr>
          | _ \<Rightarrow> Inl [''Field required'']),
      ListTablesResponse = (\<lambda>kw.
          case map_of kw ''identifiers'' of
            Some (JArr js) \<Rightarrow>
              (case table_entries js of Some r \<Rightarrow> Inr r | None \<Rightarrow> Inl [''Input should be valid''])
          | _ \<Rightarrow> Inl [''Field required'']),
      CommitTableResponse = (\<lambda>kw.
          case (map_of kw ''metadata'', str_field kw ''metadata-location'') of
            (Some (JObj m), Some loc) \<Rightarrow> Inr (metadata_of m, loc)
          | _ \<Rightarrow> Inl [''Field required'']),
      identifier_to_tuple_without_catalog = (\<lambda>nm ident. ident),
      version = ''0.6.0'',
      default_headers = Map.empty\<rparr>"

text \<open>
  Responses and clients for the concrete runs below: a response with an empty body (its
  text does not decode), and a client named \<open>prod\<close> whose session already carries the token
  property, as \<^verbatim>\<open>_create_session\<close> leaves it.
\<close>

definition empty_body :: "int \<Rightarrow> response" where
  "empty_body code = \<lparr>status_code = code, resp_text = [], resp_json = None\<rparr>"

definition client :: "(string \<rightharpoonup> string) \<Rightarrow> response list \<Rightarrow> world" where
  "client props rs =
     \<lparr>name = ''prod'', uri = ''https://catalog.example/'', properties = props,
      catalog_session = set_authorization \<lparr>headers = Map.empty\<rparr> (props TOKEN),
      inbox = rs, outbox = []\<rparr>"

definition token_only :: "string \<rightharpoonup> string" where
  "token_only = [''uri'' \<mapsto> ''https://catalog.example/'', ''token'' \<mapsto> ''t0'']"

definition token_and_credential :: "string \<rightharpoonup> string" where
  "token_and_credential =
     [''uri'' \<mapsto> ''https://catalog.example/'', ''token'' \<mapsto> ''t0'',
      ''credential'' \<mapsto> ''id:secret'']"

definition oauth_denied :: response where
  \<open>oauth_denied =
     \<lparr>status_code = 401,
      resp_text = ''{"error": "invalid_client", "error_description": "Bad secret"}'',
      resp_json = Some (JObj [(''error'', JStr ''invalid_client''),
                              (''error_description'', JStr ''Bad secret'')])\<rparr>\<close>

definition token_granted :: response where
  \<open>token_granted =
     \<lparr>status_code = 200,
      resp_text = ''{"access_token": "t1", "token_type": "Bearer"}'',
      resp_json = Some (JObj [(''access_token'', JStr ''t1''),
                              (''token_type'', JStr ''Bearer'')])\<rparr>\<close>

definition config_document :: response where
  \<open>config_document =
     \<lparr>status_code = 200,
      resp_text = ''{"defaults": {"a": "1", "b": "2"}, "overrides": {"a": "5"}}'',
      resp_json = Some (JObj [(''defaults'', JObj [(''a'', JStr ''1''), (''b'', JStr ''2'')]),
                              (''overrides'', JObj [(''a'', JStr ''5'')])])\<rparr>\<close>

definition caller_properties :: "string \<rightharpoonup> string" where
  "caller_properties =
     [''uri'' \<mapsto> ''https://catalog.example/'', ''b'' \<mapsto> ''3'', ''c'' \<mapsto> ''4'']"

definition table_document :: response where
  \<open>table_document =
     \<lparr>status_code = 200,
      resp_text = ''{"metadata-location": "s3://bucket/t/metadata/v1.json", "metadata": {}}'',
      resp_json = Some (JObj [(''metadata-location'', JStr ''s3://bucket/t/metadata/v1.json''),
                              (''metadata'', JObj [])])\<rparr>\<close>

text \<open>The class of the exception an outcome raised, if it raised one.\<close>

definition raised :: "(exn + 'a) \<times> 's \<Rightarrow> exc_type option" where
  "raised outcome = (case fst outcome of Inl e \<Rightarrow> Some (fst e) | Inr v \<Rightarrow> None)"

text \<open>
  A response whose body is the JSON value \<^verbatim>\<open>null\<close>, and the properties of a client whose
  secret holds a colon.
\<close>

definition null_body :: "int \<Rightarrow> response" where
  "null_body code = \<lparr>status_code = code, resp_text = ''null'', resp_json = Some JNull\<rparr>"

definition two_colons :: "string \<rightharpoonup> string" where
  "two_colons = [''uri'' \<mapsto> ''https://catalog.example/'', ''credential'' \<mapsto> ''id:se:cret'']"

section \<open>Properties of the identifier codec\<close>

lemma split_no_sep: "c \<notin> set s \<Longrightarrow> split c s = [s]"
  by (induction s) auto

lemma split_append_sep: "c \<notin> set s \<Longrightarrow> split c (s @ c # rest) = s # split c rest"
  by (induction s) auto

lemma split_join:
  "xs \<noteq> [] \<Longrightarrow> \<forall>s\<in>set xs. c \<notin> set s \<Longrightarrow> split c (join [c] xs) = xs"
proof (induction "[c]" xs rule: join.induct)
  case 1
  then show ?case by simp
next
  case (2 x)
  then show ?case by (simp add: split_no_sep)
next
  case (3 x y ys)
  then show ?case by (simp add: split_append_sep)
qed

text \<open>
  C8. For an identifier tuple of at least two segments, none of which holds the separator
  0x1F, \<^verbatim>\<open>_split_identifier_for_path\<close> returns the namespace path (all segments but the last,
  joined with the separator) and the leaf, and splitting that path at the separator and
  appending the leaf gives the segments back. (The segments need not be non-empty for this.)
\<close>

theorem path_encode_round_trip:
  assumes "2 \<le> length ident"
    and "\<forall>seg\<in>set ident. NAMESPACE_SEPARATOR \<notin> set seg"
  shows "split_identifier_for_path (Ident ident)
           = Inr (join [NAMESPACE_SEPARATOR] (butlast ident), last ident)
         \<and> split NAMESPACE_SEPARATOR (join [NAMESPACE_SEPARATOR] (butlast ident)) @ [last ident]
           = ident"
proof -
  from assms(1) have ne: "ident \<noteq> []" and bne: "butlast ident \<noteq> []"
    by (cases ident; cases "tl ident"; auto)+
  have "\<forall>seg\<in>set (butlast ident). NAMESPACE_SEPARATOR \<notin> set seg"
    using assms(2) by (meson in_set_butlastD)
  then have "split NAMESPACE_SEPARATOR (join [NAMESPACE_SEPARATOR] (butlast ident))
               = butlast ident"
    using bne by (simp add: split_join)
  moreover have "split_identifier_for_path (Ident ident)
           = Inr (join [NAMESPACE_SEPARATOR] (butlast ident), last ident)"
    using assms(1) by (simp add: split_identifier_for_path_def identifier_to_validated_tuple_def)
  ultimately show ?thesis using ne by simp
qed

theorem path_encode_round_trip_witness:
  "split_identifier_for_path (Ident [''a'', ''b'', ''t''])
     = Inr (''a'' @ [NAMESPACE_SEPARATOR] @ ''b'', ''t'')
   \<and> split NAMESPACE_SEPARATOR (''a'' @ [NAMESPACE_SEPARATOR] @ ''b'') @ [''t'']
     = [''a'', ''b'', ''t'']"
  using path_encode_round_trip [of "[''a'', ''b'', ''t'']"]
  by (simp add: NAMESPACE_SEPARATOR_def)

section \<open>Evaluation\<close>

lemmas constant_defs =
  AUTHORIZATION_HEADER_def BEARER_PREFIX_def CATALOG_SCOPE_def CLIENT_ID_def PREFIX_def
  CLIENT_SECRET_def CLIENT_CREDENTIALS_def CREDENTIAL_def GRANT_TYPE_def SCOPE_def
  SEMICOLON_def AUTH_URL_def HEADER_PREFIX_def TOKEN_def URI_def WAREHOUSE_LOCATION_def
  NAMESPACE_SEPARATOR_def ICEBERG_REST_SPEC_VERSION_def

lemmas transport_defs =
  empty_body_def client_def token_only_def token_and_credential_def caller_properties_def
  oauth_denied_def token_granted_def config_document_def table_document_def null_body_def
  two_colons_def send_def
  raise_for_status_def kwargs_def validated_def decode_def url_def endswith_def auth_url_def
  get_token_def get_config_def Let_def

lemmas error_defs =
  handle_non_200_response_def error_text_def select_exception_def could_not_decode_def
  unexpected_payload_def oauth_text_def str_int_def str_nat.simps digit_def

lemmas token_defs =
  credential_parts_def token_error_handler_def fetch_access_token_def refresh_token_on_def
  refresh_token_def retry_hook_def set_authorization_def

lemmas identifier_defs =
  split_identifier_for_path_def split_identifier_for_json_def identifier_to_validated_tuple_def
  check_valid_namespace_identifier_def

lemmas sample_defs =
  sample_def str_field_def props_field_def metadata_of_def oauth_error_codes_def

section \<open>The class of the exception raised for a response\<close>


section \<open>Properties of the retry decorator\<close>

lemma retrying_last: "retrying (Suc (Suc 0)) hook fn s = fn s"
  by (subst retrying.simps)
     (auto simp: stop_after_attempt_def split: prod.splits sum.splits)

lemma retry_unfold:
  "retry hook fn s =
     (case fn s of
        (Inr v, s1) \<Rightarrow> (Inr v, s1)
      | (Inl e, s1) \<Rightarrow>
          if fst e = AuthorizationExpiredError
          then (case hook s1 of (Inl e', s2) \<Rightarrow> (Inl e', s2) | (Inr u, s2) \<Rightarrow> fn s2)
          else (Inl e, s1))"
  unfolding retry_def
  by (subst retrying.simps)
     (auto simp: stop_after_attempt_def retry_if_exception_type_def retrying_last
        split: prod.splits sum.splits)









text \<open>
  \<^verbatim>\<open>purge_table\<close> is decorated and its body calls the decorated \<^verbatim>\<open>drop_table\<close>: after two 419
  responses a third request is sent, and here it succeeds.
\<close>

lemma purge_table_third_request:
  "fst (purge_table sample [''ns'', ''t'']
          (client token_only [empty_body 419, empty_body 419, empty_body 204])) = Inr ()
   \<and> map http_method (outbox (snd (purge_table sample [''ns'', ''t'']
          (client token_only [empty_body 419, empty_body 419, empty_body 204]))))
     = [''DELETE'', ''DELETE'', ''DELETE'']"
  by (simp add: purge_table_def purge_table_body_def drop_table_def retry_unfold
      drop_table_body_def drop_table_endpoint_def drop_table_error_handler_def constant_defs
      transport_defs error_defs token_defs identifier_defs sample_def)

section \<open>Properties of the error mapping\<close>











text \<open>
  What the mapping does when the body fails to parse in the two ways the \<^verbatim>\<open>try\<close> block
  catches: the class stays the selected one and the message holds the status and the text.
\<close>

lemma parse_failure_keeps_kind:
  "(resp_json r = None
      \<longrightarrow> handle_non_200_response x (Some r) h
            = (select_exception (status_code r) h,
               ''RESTError '' @ str_int (status_code r) @ '': Could not decode json payload: ''
                 @ resp_text r))
   \<and> (resp_json r = Some (JObj kw) \<and> select_exception (status_code r) h \<noteq> OAuthError
        \<and> ErrorResponse x kw = Inl errs
      \<longrightarrow> handle_non_200_response x (Some r) h
            = (select_exception (status_code r) h,
               ''RESTError '' @ str_int (status_code r)
                 @ '': Received unexpected JSON Payload: '' @ resp_text r
                 @ '', errors: '' @ join '', '' errs))
   \<and> (resp_json r = Some (JObj kw) \<and> select_exception (status_code r) h = OAuthError
        \<and> OAuthErrorResponse x kw = Inl errs
      \<longrightarrow> handle_non_200_response x (Some r) h
            = (OAuthError,
               ''RESTError '' @ str_int (status_code r)
                 @ '': Received unexpected JSON Payload: '' @ resp_text r
                 @ '', errors: '' @ join '', '' errs))"
  by (simp add: handle_non_200_response_def error_text_def could_not_decode_def
      unexpected_payload_def)

text \<open>
  C5 fails on the code for a body that is valid JSON but not an object: a 404 for
  \<^verbatim>\<open>load_table\<close> with the body \<^verbatim>\<open>null\<close> raises \<^verbatim>\<open>TypeError\<close> (from \<^verbatim>\<open>ErrorResponse(**None)\<close>, which
  the \<^verbatim>\<open>try\<close> block does not catch), not the \<^verbatim>\<open>NoSuchTableError\<close> the status selects, from
  \<^verbatim>\<open>_handle_non_200_response\<close> and so from \<^verbatim>\<open>load_table\<close>.
\<close>

theorem unexpected_body_type_error:
  "handle_non_200_response x (Some (null_body 404)) load_table_error_handler
   = (TypeError, ''argument after ** must be a mapping'')
   \<and> select_exception 404 load_table_error_handler = NoSuchTableError
   \<and> raised (load_table sample [''ns'', ''t''] (client token_only [null_body 404]))
     = Some TypeError"
  by (simp add: raised_def null_body_def load_table_def retry_unfold load_table_body_def
      load_table_endpoint_def load_table_error_handler_def constant_defs transport_defs
      error_defs identifier_defs sample_def)

section \<open>Properties of the token service and the session\<close>

text \<open>A credential without a colon, and one with exactly one.\<close>

lemma split_at_only_colon:
  "c \<notin> set a \<Longrightarrow> c \<notin> set b \<Longrightarrow> split c (a @ c # b) = [a, b]"
  by (simp add: split_append_sep split_no_sep)

lemma credential_with_one_colon_or_none:
  "(SEMICOLON \<notin> set credential \<longrightarrow> credential_parts credential = Inr (None, credential))
   \<and> (SEMICOLON \<notin> set a \<and> SEMICOLON \<notin> set b
      \<longrightarrow> credential_parts (a @ SEMICOLON # b) = Inr (Some a, b))"
  by (simp add: credential_parts_def split_at_only_colon)

text \<open>
  C9 fails on the code for a credential with more than one colon: \<^verbatim>\<open>split(":")\<close> gives three
  parts, the assignment to two names raises \<^verbatim>\<open>ValueError\<close>, and no request is sent; a client
  with such a credential cannot be constructed.
\<close>

theorem credential_with_two_colons:
  "credential_parts ''id:se:cret'' = Inl (ValueError, ''too many values to unpack (expected 2)'')
   \<and> fetch_access_token x sess ''id:se:cret'' w
     = (Inl (ValueError, ''too many values to unpack (expected 2)''), w)
   \<and> fst (RestCatalog sample ''prod'' two_colons [config_document])
     = Inl (ValueError, ''too many values to unpack (expected 2)'')
   \<and> outbox (snd (RestCatalog sample ''prod'' two_colons [config_document])) = []"
  by (simp add: fetch_access_token_def credential_parts_def SEMICOLON_def RestCatalog_def
      fetch_config_def create_session_def refresh_token_def refresh_token_on_def
      two_colons_def constant_defs Let_def)

text \<open>
  C4, as amended. When a session is established (\<^verbatim>\<open>_create_session\<close> passes the token property
  as the initial token): a token property that is there is used as it is, nothing is sent and
  the state does not change; without one, a credential is exchanged by \<^verbatim>\<open>_fetch_access_token\<close>
  and the token obtained is stored; without either, nothing is sent and the session is left
  as it is, with no \<^verbatim>\<open>Authorization\<close> header of its own. When the session is refreshed (the
  retry hook passes no initial token): a credential, when there is one, is exchanged whatever
  the token property holds, and the token obtained replaces it; without a credential the
  stored token is applied again. The header is set to \<^verbatim>\<open>Bearer\<close> and the token when the token
  is not empty.
\<close>

theorem token_resolution_order:
  "(properties w TOKEN = Some t
      \<longrightarrow> refresh_token_on x sess (properties w TOKEN) w
            = (Inr (set_authorization sess (Some t)), w))
   \<and> (properties w TOKEN = None \<and> properties w CREDENTIAL = Some c
      \<longrightarrow> refresh_token_on x sess (properties w TOKEN) w
            = (case fetch_access_token x sess c w of
                 (Inl e, w1) \<Rightarrow> (Inl e, w1)
               | (Inr tok, w1) \<Rightarrow>
                   (Inr (set_authorization sess (Some tok)),
                    w1\<lparr>properties := (properties w1)(TOKEN \<mapsto> tok)\<rparr>)))
   \<and> (properties w TOKEN = None \<and> properties w CREDENTIAL = None
      \<longrightarrow> refresh_token_on x sess (properties w TOKEN) w = (Inr sess, w))
   \<and> (properties w CREDENTIAL = Some c
      \<longrightarrow> refresh_token_on x sess None w
            = (case fetch_access_token x sess c w of
                 (Inl e, w1) \<Rightarrow> (Inl e, w1)
               | (Inr tok, w1) \<Rightarrow>
                   (Inr (set_authorization sess (Some tok)),
                    w1\<lparr>properties := (properties w1)(TOKEN \<mapsto> tok)\<rparr>)))
   \<and> (properties w CREDENTIAL = None
      \<longrightarrow> refresh_token_on x sess None w
            = (Inr (set_authorization sess (properties w TOKEN)), w))
   \<and> create_session x w
       = (case refresh_token_on x \<lparr>headers = default_headers x\<rparr> (properties w TOKEN) w of
            (Inl e, w1) \<Rightarrow> (Inl e, w1)
          | (Inr s, w1) \<Rightarrow> (Inr (config_headers x s w1), w1))
   \<and> retry_hook x w
       = (case refresh_token_on x (catalog_session w) None w of
            (Inl e, w1) \<Rightarrow> (Inl e, w1)
          | (Inr s, w1) \<Rightarrow> (Inr (), w1\<lparr>catalog_session := s\<rparr>))
   \<and> headers (set_authorization sess (Some t)) AUTHORIZATION_HEADER
       = (if t = [] then headers sess AUTHORIZATION_HEADER
          else Some (BEARER_PREFIX @ '' '' @ t))
   \<and> set_authorization sess None = sess"
proof -
  have e1: "refresh_token_on x sess (properties w TOKEN) w
            = (Inr (set_authorization sess (Some t)), w)" if "properties w TOKEN = Some t"
    using that by (simp add: refresh_token_on_def fun_upd_idem)
  have r1: "refresh_token_on x sess None w
            = (case fetch_access_token x sess c w of
                 (Inl e, w1) \<Rightarrow> (Inl e, w1)
               | (Inr tok, w1) \<Rightarrow>
                   (Inr (set_authorization sess (Some tok)),
                    w1\<lparr>properties := (properties w1)(TOKEN \<mapsto> tok)\<rparr>))"
    if "properties w CREDENTIAL = Some c"
    using that by (simp add: refresh_token_on_def split: prod.splits sum.splits)
  have r2: "refresh_token_on x sess None w
            = (Inr (set_authorization sess (properties w TOKEN)), w)"
    if "properties w CREDENTIAL = None"
    using that by (simp add: refresh_token_on_def)
  have cs: "create_session x w
       = (case refresh_token_on x \<lparr>headers = default_headers x\<rparr> (properties w TOKEN) w of
            (Inl e, w1) \<Rightarrow> (Inl e, w1)
          | (Inr s, w1) \<Rightarrow> (Inr (config_headers x s w1), w1))"
    by (simp add: create_session_def refresh_token_def)
  have rh: "retry_hook x w
       = (case refresh_token_on x (catalog_session w) None w of
            (Inl e, w1) \<Rightarrow> (Inl e, w1)
          | (Inr s, w1) \<Rightarrow> (Inr (), w1\<lparr>catalog_session := s\<rparr>))"
    by (simp add: retry_hook_def refresh_token_def split: prod.splits sum.splits)
  have hd: "headers (set_authorization sess (Some t)) AUTHORIZATION_HEADER
       = (if t = [] then headers sess AUTHORIZATION_HEADER
          else Some (BEARER_PREFIX @ '' '' @ t))"
       "set_authorization sess None = sess"
    by (simp_all add: set_authorization_def)
  show ?thesis
    using e1 r1 r2 cs rh hd
    by (auto simp: set_authorization_def)
qed

theorem token_resolution_order_witness:
  "refresh_token_on sample \<lparr>headers = Map.empty\<rparr>
     (properties (client token_and_credential []) TOKEN) (client token_and_credential [])
   = (Inr (set_authorization \<lparr>headers = Map.empty\<rparr> (Some ''t0'')),
      client token_and_credential [])
   \<and> headers (set_authorization \<lparr>headers = Map.empty\<rparr> (Some ''t0'')) AUTHORIZATION_HEADER
     = Some ''Bearer t0''"
proof -
  have pre: "properties (client token_and_credential []) TOKEN = Some ''t0''"
    by (simp add: client_def token_and_credential_def constant_defs)
  show ?thesis
    using token_resolution_order[where x = sample and sess = "\<lparr>headers = Map.empty\<rparr>"
        and w = "client token_and_credential []" and t = "''t0''" and c = "''id:secret''"] pre
    by (simp add: BEARER_PREFIX_def)
qed

text \<open>
  C4 as stated fails at a refresh: a client given both a token and a credential exchanges the
  credential and replaces the token it was given.
\<close>

theorem refresh_ignores_supplied_token_counterexample:
  "properties (client token_and_credential [token_granted]) TOKEN = Some ''t0''
   \<and> fst (retry_hook sample (client token_and_credential [token_granted])) = Inr ()
   \<and> properties (snd (retry_hook sample (client token_and_credential [token_granted]))) TOKEN
       = Some ''t1''
   \<and> headers (catalog_session
         (snd (retry_hook sample (client token_and_credential [token_granted]))))
         AUTHORIZATION_HEADER = Some ''Bearer t1''
   \<and> map target (outbox (snd (retry_hook sample (client token_and_credential [token_granted]))))
       = [''https://catalog.example/v1/oauth/tokens'']"
  by (simp add: token_granted_def constant_defs transport_defs token_defs sample_defs)

section \<open>Properties of the configuration\<close>






















section \<open>Properties of identifier validation\<close>

text \<open>
  C7, as amended. A table identifier of fewer than two segments makes
  \<^verbatim>\<open>_split_identifier_for_path\<close> and \<^verbatim>\<open>_split_identifier_for_json\<close> raise \<^verbatim>\<open>NoSuchTableError\<close>, and a
  namespace identifier of no segment makes \<^verbatim>\<open>_check_valid_namespace_identifier\<close> raise
  \<^verbatim>\<open>NoSuchNamespaceError\<close>; \<^verbatim>\<open>create_table\<close> and \<^verbatim>\<open>list_tables\<close> raise them before any request is
  sent (the state is unchanged), so no failure of the network can be involved.
\<close>

theorem identifier_shape_violations:
  "(length ident < 2
      \<longrightarrow> split_identifier_for_path (Ident ident)
            = Inl (NoSuchTableError,
                   ''Missing namespace or invalid identifier: '' @ join ''.'' ident)
          \<and> split_identifier_for_json ident
            = Inl (NoSuchTableError,
                   ''Missing namespace or invalid identifier: '' @ join ''.'' ident)
          \<and> create_table x ident w
            = (Inl (NoSuchTableError,
                    ''Missing namespace or invalid identifier: '' @ join ''.'' ident), w))
   \<and> (length namespace < 1
      \<longrightarrow> check_valid_namespace_identifier namespace
            = Inl (NoSuchNamespaceError, ''Empty namespace identifier: ()'')
          \<and> list_tables x namespace w
            = (Inl (NoSuchNamespaceError, ''Empty namespace identifier: ()''), w))"
  by (simp add: identifier_defs create_table_def create_table_body_def list_tables_def
      list_tables_body_def retry_unfold)

theorem identifier_shape_violations_witness:
  "create_table sample [''t''] (client token_only [])
     = (Inl (NoSuchTableError, ''Missing namespace or invalid identifier: t''),
        client token_only [])
   \<and> list_tables sample [] (client token_only [])
     = (Inl (NoSuchNamespaceError, ''Empty namespace identifier: ()''), client token_only [])"
  using identifier_shape_violations[where ident = "[''t'']" and namespace = "[]"
      and x = sample and w = "client token_only []"]
  by simp

text \<open>
  C7 as stated fails: there is no error kind of its own for a malformed identifier. The
  kinds raised are the ones a 404 response is mapped to for \<^verbatim>\<open>load_table\<close> and \<^verbatim>\<open>list_tables\<close>.
\<close>

theorem identifier_error_kind_counterexample:
  "split_identifier_for_path (Ident [''t''])
     = Inl (NoSuchTableError, ''Missing namespace or invalid identifier: t'')
   \<and> fst (handle_non_200_response sample (Some (empty_body 404)) load_table_error_handler)
     = NoSuchTableError
   \<and> check_valid_namespace_identifier []
     = Inl (NoSuchNamespaceError, ''Empty namespace identifier: ()'')
   \<and> fst (handle_non_200_response sample (Some (empty_body 404)) list_tables_error_handler)
     = NoSuchNamespaceError"
  by (simp add: identifier_defs error_defs empty_body_def load_table_error_handler_def
      list_tables_error_handler_def)

section \<open>Properties of the table handle\<close>

lemma retry_Inr:
  assumes "retry hook fn s = (Inr v, s')"
  shows "fn s = (Inr v, s')
         \<or> (\<exists>e s1 u s2. fn s = (Inl e, s1) \<and> hook s1 = (Inr u, s2) \<and> fn s2 = (Inr v, s'))"
  using assms
  by (auto simp: retry_unfold split: prod.splits sum.splits if_splits)












end
